theory Spec2Isabelle
  imports Main "HOL-Library.Sublist"
begin

section \<open>Python values used by tjtool\<close>

text \<open>
  A Python \<^verbatim>\<open>str\<close> is a sequence of Unicode code points; \<^verbatim>\<open>len\<close>, \<^verbatim>\<open>find\<close>,
  \<^verbatim>\<open>in\<close> and \<^verbatim>\<open>replace\<close> all count code points. The model is a list of code points
  (natural numbers); \<open>lit\<close> turns an ASCII literal into one.
\<close>

type_synonym pystr = "nat list"

definition lit :: "string \<Rightarrow> pystr" where
  "lit s = map of_char s"

definition space :: nat where
  "space = 32"

datatype error = AttributeError | FileNotFoundError | IndexError | UnboundLocalError

text \<open>\<^verbatim>\<open>w1 in w2\<close> on two strings: \<open>w1\<close> occurs in \<open>w2\<close> as a contiguous run.\<close>

fun startswith :: "pystr \<Rightarrow> pystr \<Rightarrow> bool" where
  "startswith s [] = True"
| "startswith [] (c # w) = False"
| "startswith (d # s) (c # w) = (d = c \<and> startswith s w)"

fun py_in :: "pystr \<Rightarrow> pystr \<Rightarrow> bool" where
  "py_in w [] = (w = [])"
| "py_in w (c # s) = (startswith (c # s) w \<or> py_in w s)"

text \<open>\<^verbatim>\<open>sep.join(xs)\<close> with a one-character separator.\<close>

fun join :: "nat \<Rightarrow> pystr list \<Rightarrow> pystr" where
  "join sep [] = []"
| "join sep [x] = x"
| "join sep (x # y # xs) = x @ sep # join sep (y # xs)"

text \<open>
  \<^verbatim>\<open>list(set(xs))\<close>: the elements of \<open>xs\<close>, each once. Python leaves the iteration
  order of a set unspecified; the model lists them in the order of their last occurrence,
  and every statement below reads such a result through \<open>set\<close> and \<open>distinct\<close>, or
  where it has at most one element.
\<close>

definition list_of_set :: "'a list \<Rightarrow> 'a list" where
  "list_of_set xs = remdups xs"

section \<open>remove\_duplicates (both extractor classes, same text)\<close>

text \<open>
  \<^verbatim>\<open>
  for w1 in name_list:
      repeated = False
      remain = set(name_list)-set([w1])
      for w2 in remain:
          if w1 in w2:
              repeated = True
      if not repeated:
          new_name_list.append(w1)
  new_name_list = list(set(new_name_list))
  \<close>
\<close>

definition remain :: "pystr list \<Rightarrow> pystr \<Rightarrow> pystr list" where
  "remain name_list w1 = list_of_set (filter (\<lambda>w. w \<noteq> w1) name_list)"

definition repeated :: "pystr list \<Rightarrow> pystr \<Rightarrow> bool" where
  "repeated name_list w1 =
     fold (\<lambda>w2 r. if py_in w1 w2 then True else r) (remain name_list w1) False"

definition remove_duplicates :: "pystr list \<Rightarrow> pystr list" where
  "remove_duplicates name_list =
     list_of_set
       (fold (\<lambda>w1 new_name_list.
                if \<not> repeated name_list w1 then new_name_list @ [w1] else new_name_list)
             name_list [])"

text \<open>The names of the specification's example; 237 is i-acute, 225 is a-acute.\<close>

definition Luis_de_Guindos :: pystr where
  "Luis_de_Guindos = lit ''Lu'' @ [237] @ lit ''s de Guindos''"

definition Guindos :: pystr where
  "Guindos = lit ''Guindos''"

definition Luis :: pystr where
  "Luis = lit ''Lu'' @ [237] @ lit ''s''"

definition Pedro_Sanchez :: pystr where
  "Pedro_Sanchez = lit ''Pedro S'' @ [225] @ lit ''nchez''"

section \<open>What the linguistic libraries provide\<close>

text \<open>
  The parser (\<^verbatim>\<open>pattern.es.parsetree\<close>), the pattern matcher (\<^verbatim>\<open>pattern.search\<close>) and
  the named-entity recogniser (spaCy) are libraries outside the repository. The model
  keeps of their objects the attributes that tjtool reads, each nullable attribute as an
  option, and takes their functions as the fields of a \<open>provider\<close>.

  A chunk: \<^verbatim>\<open>chunk.role\<close> and \<^verbatim>\<open>chunk.verb.head.lemma\<close>; the outer option of
  \<open>verb_head_lemma\<close> is \<^verbatim>\<open>chunk.verb\<close> being \<^verbatim>\<open>None\<close>, the inner one the lemma.
\<close>

record chunk =
  role :: "pystr option"
  verb_head_lemma :: "pystr option option"

text \<open>A word: \<^verbatim>\<open>string\<close>, \<^verbatim>\<open>tag\<close>, \<^verbatim>\<open>index\<close>, the id of its sentence, \<^verbatim>\<open>chunk\<close>.\<close>

record word =
  w_string :: pystr
  w_tag :: "pystr option"
  w_index :: int
  w_sent :: int
  w_chunk :: "chunk option"

record sentence =
  s_string :: pystr
  s_id :: int

text \<open>A match is the list of its words (\<^verbatim>\<open>m.words\<close>); \<^verbatim>\<open>m.string\<close> joins their strings.\<close>

type_synonym match = "word list"

definition match_string :: "match \<Rightarrow> pystr" where
  "match_string m = join space (map w_string m)"

text \<open>A recognised entity of spaCy: \<^verbatim>\<open>ent.text\<close> and \<^verbatim>\<open>ent.label_\<close>.\<close>

record ent =
  e_text :: pystr
  e_label :: pystr

text \<open>
  \<open>search_trigger s\<close> is \<^verbatim>\<open>search('RPTVRB|seg\'un', s)\<close>, \<open>search_source s\<close> the search
  of the pattern \<^verbatim>\<open>SOURCE\<close> and \<open>search_nnp s\<close> that of \<^verbatim>\<open>!LOCATION|NNP+\<close>, all
  against the taxonomy of the process; \<open>previous w\<close> is \<^verbatim>\<open>w.previous()\<close>,
  \<open>in_taxonomy l\<close> is \<^verbatim>\<open>l in taxonomy\<close> and \<open>nlp_ents s\<close> is \<^verbatim>\<open>self.nlp(s).ents\<close>.
\<close>

record provider =
  parsetree :: "pystr \<Rightarrow> sentence list"
  search_trigger :: "sentence \<Rightarrow> match list"
  search_source :: "sentence \<Rightarrow> match list"
  search_nnp :: "sentence \<Rightarrow> match list"
  previous :: "word \<Rightarrow> word option"
  in_taxonomy :: "pystr option \<Rightarrow> bool"
  nlp_ents :: "pystr \<Rightarrow> ent list"

section \<open>The state of the process and of an extractor\<close>

text \<open>
  The process: the data files (a file is the list of its lines, each with its newline),
  the calls \<^verbatim>\<open>taxonomy.append(term, type=tag)\<close> made so far, in order, and the class
  attribute \<^verbatim>\<open>__has_taxonomy\<close> of each of the two classes.
\<close>

record process =
  files :: "pystr \<Rightarrow> pystr list option"
  taxonomy :: "(pystr \<times> pystr) list"
  ReporterExtractor_has_taxonomy :: bool
  SpacyReporterExtractor_has_taxonomy :: bool

text \<open>
  An instance of either class. \<open>has_taxonomy\<close> is the instance attribute
  \<^verbatim>\<open>__has_taxonomy\<close>, \<open>tree\<close> is \<^verbatim>\<open>self.__tree\<close>, \<open>reporters_out\<close> and
  \<open>entities_out\<close> are the attributes of these names; \<open>None\<close> is an attribute the
  instance does not have.
\<close>

record extractor =
  has_taxonomy :: "bool option"
  sources :: "word list"
  reporters :: "word list"
  entities :: "word list"
  tree :: "sentence list option"
  reporters_out :: "pystr list option"
  entities_out :: "pystr list option"

definition new_instance :: extractor where
  "new_instance =
     \<lparr>has_taxonomy = None, sources = [], reporters = [], entities = [], tree = None,
      reporters_out = None, entities_out = None\<rparr>"

text \<open>A loop whose body may raise stops at the first error.\<close>

fun foldE :: "('a \<Rightarrow> 's \<Rightarrow> error + 's) \<Rightarrow> 'a list \<Rightarrow> 's \<Rightarrow> error + 's" where
  "foldE f [] s = Inr s"
| "foldE f (x # xs) s = (case f x s of Inl e \<Rightarrow> Inl e | Inr s' \<Rightarrow> foldE f xs s')"

section \<open>\_create\_taxonomy and \_add\_category\<close>

definition rstrip_newline :: "pystr \<Rightarrow> pystr" where
  "rstrip_newline term = rev (dropWhile (\<lambda>c. c = 10) (rev term))"

definition add_category :: "process \<Rightarrow> pystr \<Rightarrow> pystr \<Rightarrow> error + process" where
  "add_category p file_name tag =
     (case files p file_name of
        None \<Rightarrow> Inl FileNotFoundError
      | Some f \<Rightarrow>
          Inr (fold (\<lambda>term p. p\<lparr>taxonomy := taxonomy p @ [(rstrip_newline term, tag)]\<rparr>) f p))"

text \<open>
  \<^verbatim>\<open>self.__has_taxonomy\<close> read: the attribute of the instance when it has one, else the
  attribute of the class. \<^verbatim>\<open>self.__has_taxonomy = True\<close> written: the attribute of
  the instance.
\<close>

definition read_has_taxonomy :: "bool \<Rightarrow> extractor \<Rightarrow> bool" where
  "read_has_taxonomy cls self = (case has_taxonomy self of Some b \<Rightarrow> b | None \<Rightarrow> cls)"

definition create_taxonomy :: "bool \<Rightarrow> process \<Rightarrow> extractor \<Rightarrow> error + process \<times> extractor" where
  "create_taxonomy cls p self =
     (if \<not> read_has_taxonomy cls self then
        (case add_category p (lit ''data/reported_verbs.txt'') (lit ''RPTVRB'') of
           Inl e \<Rightarrow> Inl e
         | Inr p1 \<Rightarrow>
        (case add_category p1 (lit ''data/sources.txt'') (lit ''SOURCE'') of
           Inl e \<Rightarrow> Inl e
         | Inr p2 \<Rightarrow>
        (case add_category p2 (lit ''data/locations.txt'') (lit ''LOCATION'') of
           Inl e \<Rightarrow> Inl e
         | Inr p3 \<Rightarrow> Inr (p3, self\<lparr>has_taxonomy := Some True\<rparr>))))
      else Inr (p, self))"

definition ReporterExtractor_init :: "process \<Rightarrow> error + process \<times> extractor" where
  "ReporterExtractor_init p =
     (case create_taxonomy (ReporterExtractor_has_taxonomy p) p new_instance of
        Inl e \<Rightarrow> Inl e
      | Inr (p', self) \<Rightarrow> Inr (p', self\<lparr>sources := [], reporters := [], entities := []\<rparr>))"

text \<open>\<^verbatim>\<open>self._max_dist = 100\<close>, assigned by the constructor and by nothing else.\<close>

definition max_dist :: int where
  "max_dist = 100"

definition SpacyReporterExtractor_init :: "process \<Rightarrow> error + process \<times> extractor" where
  "SpacyReporterExtractor_init p =
     (case create_taxonomy (SpacyReporterExtractor_has_taxonomy p) p new_instance of
        Inl e \<Rightarrow> Inl e
      | Inr (p', self) \<Rightarrow> Inr (p', self\<lparr>sources := [], reporters := [], entities := []\<rparr>))"

section \<open>\_pack\_list\<close>

text \<open>\<^verbatim>\<open>itertools.groupby\<close>: the maximal runs of neighbours with equal keys.\<close>

function groupby :: "('a \<Rightarrow> 'k) \<Rightarrow> 'a list \<Rightarrow> ('k \<times> 'a list) list" where
  "groupby key [] = []"
| "groupby key (x # xs) =
     (key x, x # takeWhile (\<lambda>y. key y = key x) xs)
       # groupby key (dropWhile (\<lambda>y. key y = key x) xs)"
  by pat_completeness auto
termination
  by (relation "measure (\<lambda>(key, xs). length xs)")
     (auto simp: length_dropWhile_le less_Suc_eq_le)

text \<open>
  \<^verbatim>\<open>
  [' '.join([word.string for word in map(itemgetter(1), g)])
   for k, g in groupby(enumerate(data), lambda i_w: i_w[0]-i_w[1].index)]
  \<close>
\<close>

definition pack_list :: "word list \<Rightarrow> pystr list" where
  "pack_list data =
     map (\<lambda>(k, g). join space (map (\<lambda>(i, word). w_string word) g))
       (groupby (\<lambda>(i, w). int i - w_index w) (enumerate 0 data))"

text \<open>The key and the name of a group in \<open>pack_list\<close>, named.\<close>

definition pack_key :: "nat \<times> word \<Rightarrow> int" where
  "pack_key = (\<lambda>(i, w). int i - w_index w)"

definition pack_name :: "int \<times> (nat \<times> word) list \<Rightarrow> pystr" where
  "pack_name = (\<lambda>(k, g). join space (map (\<lambda>(i, word). w_string word) g))"

section \<open>\_clean\<close>

definition replace_char :: "nat \<Rightarrow> pystr \<Rightarrow> pystr \<Rightarrow> pystr" where
  "replace_char c r s = concat (map (\<lambda>x. if x = c then r else [x]) s)"

text \<open>
  The characters removed are the two straight quotes, the two curly double quotes, the
  inverted and plain question marks, the plain and inverted exclamation marks; the slash
  and the box-drawing dash (U+2500) become a space.
\<close>

definition clean :: "pystr \<Rightarrow> pystr" where
  "clean s =
     (let s1 = fold (\<lambda>c s. replace_char c [] s) [34, 39, 8221, 8220, 191, 63, 33, 161] s
      in fold (\<lambda>c s. replace_char c [space] s) [47, 9472] s1)"

section \<open>\_extract\_sources and get\_sources (both classes, same text)\<close>

definition extract_sources :: "provider \<Rightarrow> extractor \<Rightarrow> error + extractor" where
  "extract_sources P self =
     (case tree self of
        None \<Rightarrow> Inl AttributeError
      | Some t \<Rightarrow>
          Inr (fold (\<lambda>sentence.
                 fold (\<lambda>m. fold (\<lambda>w self. self\<lparr>sources := sources self @ [w]\<rparr>) m)
                   (search_source P sentence)) t self))"

definition get_sources :: "extractor \<Rightarrow> pystr list" where
  "get_sources self = pack_list (sources self)"

text \<open>The words of all matches of the \<^verbatim>\<open>SOURCE\<close> pattern, sentence after sentence.\<close>

definition all_source_words :: "provider \<Rightarrow> sentence list \<Rightarrow> word list" where
  "all_source_words P t = concat (map (\<lambda>s. concat (search_source P s)) t)"

section \<open>ReporterExtractor: the role-based strategy\<close>

definition is_composed_noun :: "provider \<Rightarrow> word \<Rightarrow> bool" where
  "is_composed_noun P word =
     (case previous P word of
        None \<Rightarrow> False
      | Some p \<Rightarrow>
          (case previous P p of
             None \<Rightarrow> False
           | Some pp \<Rightarrow>
               w_string p \<in> set [lit ''de'', lit ''en'', lit ''del'']
               \<and> w_tag pp = Some (lit ''NNP'')))"

text \<open>
  \<^verbatim>\<open>(w.chunk.role is not None) and (w.chunk.verb.head.lemma in taxonomy)\<close>: reading
  an attribute of \<^verbatim>\<open>None\<close> raises, and \<^verbatim>\<open>and\<close> does not evaluate its right side
  when the left one is false.
\<close>

definition has_reporter_role :: "provider \<Rightarrow> word \<Rightarrow> error + bool" where
  "has_reporter_role P w =
     (case w_chunk w of
        None \<Rightarrow> Inl AttributeError
      | Some c \<Rightarrow>
          (case role c of
             None \<Rightarrow> Inr False
           | Some r \<Rightarrow>
               (case verb_head_lemma c of
                  None \<Rightarrow> Inl AttributeError
                | Some l \<Rightarrow> Inr (in_taxonomy P l))))"

text \<open>
  The words that \<^verbatim>\<open>if self._is_composed_noun(w): xs.append(w.previous())\<close> appends;
  \<^verbatim>\<open>w.previous()\<close> is a word whenever \<open>is_composed_noun\<close> holds.
\<close>

definition composed_prefix :: "provider \<Rightarrow> word \<Rightarrow> word list" where
  "composed_prefix P w =
     (if is_composed_noun P w then (case previous P w of Some p \<Rightarrow> [p] | None \<Rightarrow> [])
      else [])"

definition classify_word :: "provider \<Rightarrow> word \<Rightarrow> extractor \<Rightarrow> error + extractor" where
  "classify_word P w self =
     (case has_reporter_role P w of
        Inl e \<Rightarrow> Inl e
      | Inr b \<Rightarrow>
          if b then Inr (self\<lparr>reporters := reporters self @ composed_prefix P w @ [w]\<rparr>)
          else Inr (self\<lparr>entities := entities self @ composed_prefix P w @ [w]\<rparr>))"

definition ReporterExtractor_extract_reporters :: "provider \<Rightarrow> extractor \<Rightarrow> error + extractor" where
  "ReporterExtractor_extract_reporters P self =
     (case tree self of
        None \<Rightarrow> Inl AttributeError
      | Some t \<Rightarrow>
          (let sentences = filter (\<lambda>s. search_trigger P s \<noteq> []) t
           in foldE (\<lambda>s. foldE (\<lambda>m. foldE (classify_word P) m) (search_nnp P s))
                sentences self))"

definition ReporterExtractor_parse :: "provider \<Rightarrow> extractor \<Rightarrow> pystr \<Rightarrow> error + extractor" where
  "ReporterExtractor_parse P self text_in =
     (let self1 = self\<lparr>sources := [], reporters := [], entities := []\<rparr>;
          cleaned = clean text_in;
          self2 = self1\<lparr>tree := Some (parsetree P cleaned)\<rparr>
      in case extract_sources P self2 of
           Inl e \<Rightarrow> Inl e
         | Inr self3 \<Rightarrow> ReporterExtractor_extract_reporters P self3)"

definition ReporterExtractor_get_reporters :: "extractor \<Rightarrow> pystr list \<times> extractor" where
  "ReporterExtractor_get_reporters self =
     (let out = remove_duplicates (pack_list (reporters self))
      in (out, self\<lparr>reporters_out := Some out\<rparr>))"

text \<open>\<^verbatim>\<open>list(set(a) - set(b))\<close>.\<close>

definition set_difference :: "'a list \<Rightarrow> 'a list \<Rightarrow> 'a list" where
  "set_difference a b = list_of_set (filter (\<lambda>x. x \<notin> set b) a)"

definition ReporterExtractor_get_entities :: "extractor \<Rightarrow> pystr list" where
  "ReporterExtractor_get_entities self =
     set_difference (pack_list (entities self)) (pack_list (reporters self))"

section \<open>SpacyReporterExtractor: the proximity-based strategy\<close>

text \<open>\<^verbatim>\<open>s.find(w)\<close>: the first position where \<open>w\<close> starts in \<open>s\<close>, or \<open>-1\<close>.\<close>

fun find_from :: "int \<Rightarrow> pystr \<Rightarrow> pystr \<Rightarrow> int" where
  "find_from i [] w = (if w = [] then i else - 1)"
| "find_from i (c # s) w = (if startswith (c # s) w then i else find_from (i + 1) s w)"

definition str_find :: "pystr \<Rightarrow> pystr \<Rightarrow> int" where
  "str_find s w = find_from 0 s w"

definition get_distance :: "pystr \<Rightarrow> pystr \<Rightarrow> pystr \<Rightarrow> int" where
  "get_distance w1 w2 s = (let pos_w1 = str_find s w1; pos_w2 = str_find s w2 in pos_w2 - pos_w1)"

text \<open>
  The loop over \<^verbatim>\<open>sent_nlp.ents\<close>. Its variables: \<open>dist\<close> (\<open>None\<close> while not yet
  assigned), \<open>shortest_dist\<close> (\<open>None\<close> is \<^verbatim>\<open>np.inf\<close>), \<open>shortest_word\<close> (\<open>None\<close> is the
  empty list it starts as, the only false value it takes) and the extractor.
\<close>

type_synonym scan = "int option \<times> int option \<times> word option \<times> extractor"

definition scan_ent :: "sentence \<Rightarrow> pystr \<Rightarrow> ent \<Rightarrow> scan \<Rightarrow> scan" where
  "scan_ent s verb e = (\<lambda>(dist, shortest_dist, shortest_word, self).
     let d = get_distance verb (e_text e) (s_string s);
         word = \<lparr>w_string = e_text e, w_tag = None, w_index = s_id s, w_sent = s_id s,
                 w_chunk = None\<rparr>;
         self1 = self\<lparr>entities := entities self @ [word]\<rparr>
     in if e_label e \<in> set [lit ''PER'', lit ''ORG'']
           \<and> (case shortest_dist of None \<Rightarrow> True | Some m \<Rightarrow> \<bar>d\<bar> < m)
        then (Some d, Some \<bar>d\<bar>, Some (word\<lparr>w_tag := Some (lit ''NNP'')\<rparr>), self1)
        else (Some d, shortest_dist, shortest_word, self1))"

text \<open>
  One turn of the loop over the selected sentences. \<open>dist\<close> is a variable of the whole
  method, so it is carried from one sentence to the next.
\<close>

definition scan_sentence ::
  "provider \<Rightarrow> sentence \<Rightarrow> int option \<times> extractor \<Rightarrow> error + int option \<times> extractor" where
  "scan_sentence P s = (\<lambda>(dist, self).
     case search_trigger P s of
       [] \<Rightarrow> Inl IndexError
     | m # _ \<Rightarrow>
         (let verb = match_string m
          in case fold (scan_ent s verb) (nlp_ents P (s_string s)) (dist, None, None, self) of
               (dist1, shortest_dist, shortest_word, self1) \<Rightarrow>
                 (case shortest_word of
                    None \<Rightarrow> Inr (dist1, self1)
                  | Some w \<Rightarrow>
                      (case dist1 of
                         None \<Rightarrow> Inl UnboundLocalError
                       | Some d \<Rightarrow>
                           if \<bar>d\<bar> < max_dist
                           then Inr (dist1, self1\<lparr>reporters := reporters self1 @ [w]\<rparr>)
                           else Inr (dist1, self1)))))"

definition SpacyReporterExtractor_extract_reporters ::
  "provider \<Rightarrow> extractor \<Rightarrow> error + extractor" where
  "SpacyReporterExtractor_extract_reporters P self =
     (case tree self of
        None \<Rightarrow> Inl AttributeError
      | Some t \<Rightarrow>
          (let sentences = filter (\<lambda>s. search_trigger P s \<noteq> []) t
           in case foldE (scan_sentence P) sentences (None, self) of
                Inl e \<Rightarrow> Inl e
              | Inr (dist, self1) \<Rightarrow> Inr self1))"

definition SpacyReporterExtractor_parse ::
  "provider \<Rightarrow> extractor \<Rightarrow> pystr \<Rightarrow> error + extractor" where
  "SpacyReporterExtractor_parse P self text_in =
     (let self1 = self\<lparr>sources := [], reporters := [], entities := []\<rparr>;
          cleaned = clean text_in;
          self2 = self1\<lparr>tree := Some (parsetree P cleaned)\<rparr>
      in case extract_sources P self2 of
           Inl e \<Rightarrow> Inl e
         | Inr self3 \<Rightarrow> SpacyReporterExtractor_extract_reporters P self3)"

definition SpacyReporterExtractor_get_reporters :: "extractor \<Rightarrow> pystr list \<times> extractor" where
  "SpacyReporterExtractor_get_reporters self =
     (let out = remove_duplicates (map w_string (reporters self))
      in (out, self\<lparr>reporters_out := Some out\<rparr>))"

text \<open>
  \<^verbatim>\<open>
  self.entities_out = [w.string for w in self.__entities]
  return list(set(self.entities_out)-set(self.reporters_out))
  \<close>
\<close>

definition SpacyReporterExtractor_get_entities ::
  "extractor \<Rightarrow> error + pystr list \<times> extractor" where
  "SpacyReporterExtractor_get_entities self =
     (let self1 = self\<lparr>entities_out := Some (map w_string (entities self))\<rparr>
      in case reporters_out self1 of
           None \<Rightarrow> Inl AttributeError
         | Some r \<Rightarrow> Inr (set_difference (map w_string (entities self)) r, self1))"

section \<open>Concrete inputs\<close>

text \<open>Three small data files, and a process that has not constructed any extractor yet.\<close>

definition example_files :: "pystr \<Rightarrow> pystr list option" where
  "example_files name =
     (if name = lit ''data/reported_verbs.txt''
      then Some [lit ''decir'' @ [10], lit ''afirmar'' @ [10]]
      else if name = lit ''data/sources.txt'' then Some [lit ''EFE'' @ [10]]
      else if name = lit ''data/locations.txt'' then Some [lit ''Madrid'']
      else None)"

definition example_terms :: "(pystr \<times> pystr) list" where
  "example_terms =
     [(lit ''decir'', lit ''RPTVRB''), (lit ''afirmar'', lit ''RPTVRB''),
      (lit ''EFE'', lit ''SOURCE''), (lit ''Madrid'', lit ''LOCATION'')]"

definition fresh_process :: "(pystr \<Rightarrow> pystr list option) \<Rightarrow> process" where
  "fresh_process f =
     \<lparr>files = f, taxonomy = [], ReporterExtractor_has_taxonomy = False,
      SpacyReporterExtractor_has_taxonomy = False\<rparr>"

text \<open>The instance that a constructor returns.\<close>

definition fresh_extractor :: extractor where
  "fresh_extractor = new_instance\<lparr>has_taxonomy := Some True\<rparr>"

definition reporter_names :: "error + extractor \<Rightarrow> error + pystr list" where
  "reporter_names = map_sum id (map w_string \<circ> reporters)"

definition entity_names :: "error + extractor \<Rightarrow> error + pystr list" where
  "entity_names = map_sum id (map w_string \<circ> entities)"

text \<open>
  A recogniser for short texts: the whole text is one sentence, "dijo" is the
  reported-speech verb, "Pedro" is a person.
\<close>

definition dijo :: word where
  "dijo = \<lparr>w_string = lit ''dijo'', w_tag = Some (lit ''VB''), w_index = 1, w_sent = 1,
           w_chunk = None\<rparr>"

definition Pedro_PER :: ent where
  "Pedro_PER = \<lparr>e_text = lit ''Pedro'', e_label = lit ''PER''\<rparr>"

definition Madrid_LOC :: ent where
  "Madrid_LOC = \<lparr>e_text = lit ''Madrid'', e_label = lit ''LOC''\<rparr>"

definition ner_provider :: provider where
  "ner_provider =
     \<lparr>parsetree = (\<lambda>t. if t = [] then [] else [\<lparr>s_string = t, s_id = 1\<rparr>]),
      search_trigger = (\<lambda>s. if py_in (lit ''dijo'') (s_string s) then [[dijo]] else []),
      search_source = (\<lambda>s. []),
      search_nnp = (\<lambda>s. []),
      previous = (\<lambda>w. None),
      in_taxonomy = (\<lambda>l. False),
      nlp_ents = (\<lambda>s. if py_in (lit ''Pedro'') s then [Pedro_PER] else [])\<rparr>"

definition Pedro_entity :: word where
  "Pedro_entity =
     \<lparr>w_string = lit ''Pedro'', w_tag = None, w_index = 1, w_sent = 1, w_chunk = None\<rparr>"

definition Madrid_entity :: word where
  "Madrid_entity =
     \<lparr>w_string = lit ''Madrid'', w_tag = None, w_index = 1, w_sent = 1, w_chunk = None\<rparr>"

definition Pedro_reporter :: word where
  "Pedro_reporter =
     \<lparr>w_string = lit ''Pedro'', w_tag = Some (lit ''NNP''), w_index = 1, w_sent = 1,
      w_chunk = None\<rparr>"

text \<open>
  Two sentences with the person "Pedro" and the location "Madrid", in this order, around
  the verb "dijo": in \<open>near_text\<close> the person is 6 characters from the verb and the
  location 113; in \<open>far_text\<close> the person is 107 characters from it and the location 8.
\<close>

definition threshold_provider :: provider where
  "threshold_provider =
     \<lparr>parsetree = (\<lambda>t. [\<lparr>s_string = t, s_id = 1\<rparr>]),
      search_trigger = (\<lambda>s. [[dijo]]),
      search_source = (\<lambda>s. []),
      search_nnp = (\<lambda>s. []),
      previous = (\<lambda>w. None),
      in_taxonomy = (\<lambda>l. False),
      nlp_ents = (\<lambda>s. [Pedro_PER, Madrid_LOC])\<rparr>"

definition filler :: pystr where
  "filler = replicate 100 (of_char CHR ''x'')"

definition near_text :: pystr where
  "near_text = lit ''Pedro dijo que '' @ filler @ lit '' en Madrid''"

definition far_text :: pystr where
  "far_text = lit ''Pedro '' @ filler @ lit '' dijo en Madrid''"

definition parsed :: "pystr \<Rightarrow> extractor" where
  "parsed s = fresh_extractor\<lparr>tree := Some [\<lparr>s_string = s, s_id = 1\<rparr>]\<rparr>"

section \<open>A parsed text for the role-based strategy\<close>

text \<open>
  A parsed text of two sentences for the role-based strategy. Sentence 1 is
  "Lu\'is de Guindos afirm\'o que Pedro S\'anchez llam\'o a Pedro", where "afirmar" is a
  reported-speech verb of the taxonomy and "llamar" is not; sentence 2 is
  "Reuters y Thomson Reuters publican", with no trigger and three source words.
\<close>

definition tok :: "pystr \<Rightarrow> string \<Rightarrow> int \<Rightarrow> int \<Rightarrow> chunk option \<Rightarrow> word" where
  "tok s t i sid c =
     \<lparr>w_string = s, w_tag = Some (lit t), w_index = i, w_sent = sid, w_chunk = c\<rparr>"

definition subject_of :: "string \<Rightarrow> chunk option" where
  "subject_of l = Some \<lparr>role = Some (lit ''SBJ''), verb_head_lemma = Some (Some (lit l))\<rparr>"

definition no_role :: "chunk option" where
  "no_role = Some \<lparr>role = None, verb_head_lemma = None\<rparr>"

definition Luis_0 :: word where
  "Luis_0 = tok (lit ''Lu'' @ [237] @ lit ''s'') ''NNP'' 0 1 (subject_of ''afirmar'')"

definition de_1 :: word where
  "de_1 = tok (lit ''de'') ''IN'' 1 1 (subject_of ''afirmar'')"

definition Guindos_2 :: word where
  "Guindos_2 = tok (lit ''Guindos'') ''NNP'' 2 1 (subject_of ''afirmar'')"

definition afirmo_3 :: word where
  "afirmo_3 = tok (lit ''afirm'' @ [243]) ''VB'' 3 1 no_role"

definition que_4 :: word where
  "que_4 = tok (lit ''que'') ''IN'' 4 1 no_role"

definition Pedro_5 :: word where
  "Pedro_5 = tok (lit ''Pedro'') ''NNP'' 5 1 (subject_of ''llamar'')"

definition Sanchez_6 :: word where
  "Sanchez_6 = tok (lit ''S'' @ [225] @ lit ''nchez'') ''NNP'' 6 1 (subject_of ''llamar'')"

definition llamo_7 :: word where
  "llamo_7 = tok (lit ''llam'' @ [243]) ''VB'' 7 1 no_role"

definition a_8 :: word where
  "a_8 = tok (lit ''a'') ''IN'' 8 1 no_role"

definition Pedro_9 :: word where
  "Pedro_9 = tok (lit ''Pedro'') ''NNP'' 9 1 no_role"

definition sentence1_words :: "word list" where
  "sentence1_words =
     [Luis_0, de_1, Guindos_2, afirmo_3, que_4, Pedro_5, Sanchez_6, llamo_7, a_8, Pedro_9]"

definition Reuters_0 :: word where
  "Reuters_0 = tok (lit ''Reuters'') ''NNP'' 0 2 (subject_of ''publicar'')"

definition y_1 :: word where
  "y_1 = tok (lit ''y'') ''CC'' 1 2 (subject_of ''publicar'')"

definition Thomson_2 :: word where
  "Thomson_2 = tok (lit ''Thomson'') ''NNP'' 2 2 (subject_of ''publicar'')"

definition Reuters_3 :: word where
  "Reuters_3 = tok (lit ''Reuters'') ''NNP'' 3 2 (subject_of ''publicar'')"

definition publican_4 :: word where
  "publican_4 = tok (lit ''publican'') ''VB'' 4 2 no_role"

definition sentence2_words :: "word list" where
  "sentence2_words = [Reuters_0, y_1, Thomson_2, Reuters_3, publican_4]"

definition sentence1 :: sentence where
  "sentence1 = \<lparr>s_string = join space (map w_string sentence1_words), s_id = 1\<rparr>"

definition sentence2 :: sentence where
  "sentence2 = \<lparr>s_string = join space (map w_string sentence2_words), s_id = 2\<rparr>"

definition role_text :: pystr where
  "role_text = s_string sentence1 @ lit ''. '' @ s_string sentence2"

text \<open>
  \<^verbatim>\<open>Word.previous()\<close> of the pattern library, which is outside the repository:
  \<^verbatim>\<open>
  i = self.index - 1
  s = self.sentence
  while i > 0:
      if type in (s[i].type, None):
          return s[i]
      i -= 1
  \<close>
  Called without a type it returns the word at \<open>index - 1\<close> when that position is
  above 0, and \<^verbatim>\<open>None\<close> otherwise: the word at position 0 is never returned.
  \<open>ws\<close> are the words of the sentence; the index of a word is below their number.
\<close>

definition Word_previous :: "word list \<Rightarrow> word \<Rightarrow> word option" where
  "Word_previous ws w =
     (let i = w_index w - 1
      in if 0 < i \<and> i < int (length ws) then Some (ws ! nat i) else None)"

definition role_provider :: provider where
  "role_provider =
     \<lparr>parsetree = (\<lambda>t. if t = role_text then [sentence1, sentence2] else []),
      search_trigger = (\<lambda>s. if s_id s = 1 then [[afirmo_3]] else []),
      search_source = (\<lambda>s. if s_id s = 2 then [[Reuters_0], [Thomson_2], [Reuters_3]] else []),
      search_nnp = (\<lambda>s. if s_id s = 1
                         then [[Luis_0], [Guindos_2], [Pedro_5, Sanchez_6], [Pedro_9]]
                         else [[Reuters_0], [Thomson_2, Reuters_3]]),
      previous = (\<lambda>w. if w_sent w = 1 then Word_previous sentence1_words w
                       else if w_sent w = 2 then Word_previous sentence2_words w
                       else None),
      in_taxonomy = (\<lambda>l. l = Some (lit ''afirmar'') \<or> l = Some (lit ''decir'')),
      nlp_ents = (\<lambda>s. [])\<rparr>"

definition role_result :: extractor where
  "role_result =
     fresh_extractor
       \<lparr>sources := [Reuters_0, Thomson_2, Reuters_3],
        reporters := [Luis_0, Guindos_2],
        entities := [Pedro_5, Sanchez_6, Pedro_9],
        tree := Some [sentence1, sentence2]\<rparr>"

section \<open>The role-based classification as the specification words it\<close>

text \<open>
  The role-based classification in the words of the specification: the selected sentences
  are those with a match of the trigger pattern; the candidates are the words of the
  proper-noun matches of the selected sentences; a candidate is a reporter when its chunk
  has a role and the lemma of the verb of that chunk is in the taxonomy. \<open>chunk_readable\<close>
  holds of a word on which the test reads no attribute of \<^verbatim>\<open>None\<close>.
\<close>

definition selected :: "provider \<Rightarrow> sentence list \<Rightarrow> sentence list" where
  "selected P t = filter (\<lambda>s. search_trigger P s \<noteq> []) t"

definition candidates :: "provider \<Rightarrow> sentence list \<Rightarrow> word list" where
  "candidates P t = concat (map (\<lambda>s. concat (search_nnp P s)) (selected P t))"

definition governed_by_taxonomy_verb :: "provider \<Rightarrow> word \<Rightarrow> bool" where
  "governed_by_taxonomy_verb P w =
     (case w_chunk w of
        None \<Rightarrow> False
      | Some c \<Rightarrow>
          role c \<noteq> None
          \<and> (case verb_head_lemma c of None \<Rightarrow> False | Some l \<Rightarrow> in_taxonomy P l))"

definition chunk_readable :: "word \<Rightarrow> bool" where
  "chunk_readable w =
     (case w_chunk w of
        None \<Rightarrow> False
      | Some c \<Rightarrow> role c = None \<or> verb_head_lemma c \<noteq> None)"

definition with_prefix :: "provider \<Rightarrow> word \<Rightarrow> word list" where
  "with_prefix P w = composed_prefix P w @ [w]"

definition emptied :: "extractor \<Rightarrow> extractor" where
  "emptied self = self\<lparr>sources := [], reporters := [], entities := [], tree := Some []\<rparr>"

definition Guindos_7 :: word where
  "Guindos_7 = tok (lit ''Guindos'') ''NNP'' 7 1 (subject_of ''afirmar'')"

definition reporters_example :: extractor where
  "reporters_example =
     fresh_extractor\<lparr>reporters := [Luis_0, de_1, Guindos_2, Guindos_7, Pedro_9]\<rparr>"

definition role_parsed :: extractor where
  "role_parsed = fresh_extractor\<lparr>tree := Some [sentence1, sentence2]\<rparr>"

definition reused_extractor :: extractor where
  "reused_extractor = fresh_extractor\<lparr>reporters_out := Some [lit ''Pedro'']\<rparr>"

section \<open>Substring containment\<close>

lemma startswith_prefix: "startswith s w \<longleftrightarrow> prefix w s"
  by (induction s w rule: startswith.induct) auto

lemma py_in_sublist: "py_in w s \<longleftrightarrow> sublist w s"
proof (induction s)
  case Nil
  show ?case by simp
next
  case (Cons c s)
  then show ?case
    by (simp add: startswith_prefix sublist_Cons_right)
qed

lemma fold_or_iff:
  "fold (\<lambda>w2 r. if Q w2 then True else r) xs b \<longleftrightarrow> b \<or> (\<exists>w2 \<in> set xs. Q w2)"
  by (induction xs arbitrary: b) auto

lemma repeated_iff:
  "repeated name_list w1 \<longleftrightarrow> (\<exists>w2 \<in> set name_list. w2 \<noteq> w1 \<and> sublist w1 w2)"
  by (auto simp: repeated_def remain_def list_of_set_def fold_or_iff py_in_sublist)

lemma fold_keep_filter:
  "fold (\<lambda>w acc. if K w then acc @ [w] else acc) xs acc0 = acc0 @ filter K xs"
  by (induction xs arbitrary: acc0) auto

lemma remove_duplicates_eq:
  "remove_duplicates name_list =
     remdups (filter (\<lambda>w1. \<not> repeated name_list w1) name_list)"
  by (simp add: remove_duplicates_def list_of_set_def fold_keep_filter)

lemma set_remove_duplicates:
  "set (remove_duplicates name_list) =
     {w \<in> set name_list. \<not> (\<exists>w2 \<in> set name_list. w2 \<noteq> w \<and> sublist w w2)}"
  by (auto simp: remove_duplicates_eq repeated_iff)

lemma distinct_remove_duplicates: "distinct (remove_duplicates name_list)"
  by (simp add: remove_duplicates_eq)

lemma remove_duplicates_example:
  "set (remove_duplicates [Luis_de_Guindos, Guindos, Pedro_Sanchez]) =
     {Luis_de_Guindos, Pedro_Sanchez}"
  by code_simp

text \<open>
  C5. \<open>remove_duplicates\<close> drops a name exactly when another, different name of the
  sequence contains it as a substring, and the survivors are listed once each; on the
  names "Lu\'is de Guindos", "Guindos", "Pedro S\'anchez" the result is the set of
  "Lu\'is de Guindos" and "Pedro S\'anchez".
\<close>

theorem remove_duplicates_drops_contained:
  "set (remove_duplicates name_list) =
     {w \<in> set name_list. \<not> (\<exists>w2 \<in> set name_list. w2 \<noteq> w \<and> sublist w w2)}
   \<and> distinct (remove_duplicates name_list)
   \<and> set (remove_duplicates [Luis_de_Guindos, Guindos, Pedro_Sanchez]) =
       {Luis_de_Guindos, Pedro_Sanchez}"
  by (simp only: set_remove_duplicates [symmetric] distinct_remove_duplicates
      remove_duplicates_example simp_thms)

theorem remove_duplicates_drops_contained_witness:
  "set (remove_duplicates [Guindos, Luis_de_Guindos]) = {Luis_de_Guindos}
   \<and> (\<exists>w2 \<in> set [Guindos, Luis_de_Guindos]. w2 \<noteq> Guindos \<and> sublist Guindos w2)"
proof -
  have a: "sublist Guindos Luis_de_Guindos" by code_simp
  have b: "\<not> sublist Luis_de_Guindos Guindos" by code_simp
  have c: "Guindos \<noteq> Luis_de_Guindos" by code_simp
  show ?thesis
    using remove_duplicates_drops_contained [of "[Guindos, Luis_de_Guindos]"] a b c
    by auto
qed

section \<open>The taxonomy is loaded by every constructor\<close>

lemma SpacyReporterExtractor_init_example:
  "\<exists>p. SpacyReporterExtractor_init (fresh_process example_files) = Inr (p, fresh_extractor)"
  by (simp add: SpacyReporterExtractor_init_def create_taxonomy_def read_has_taxonomy_def
      add_category_def fresh_process_def example_files_def new_instance_def
      fresh_extractor_def lit_def)

lemma ReporterExtractor_init_example:
  "\<exists>p. ReporterExtractor_init (fresh_process example_files) = Inr (p, fresh_extractor)"
  by (simp add: ReporterExtractor_init_def create_taxonomy_def read_has_taxonomy_def
      add_category_def fresh_process_def example_files_def new_instance_def
      fresh_extractor_def lit_def)

lemma fold_taxonomy_append:
  "fold (\<lambda>term p. p\<lparr>taxonomy := taxonomy p @ [(rstrip_newline term, tag)]\<rparr>) f q =
     q\<lparr>taxonomy := taxonomy q @ map (\<lambda>term. (rstrip_newline term, tag)) f\<rparr>"
  by (induction f arbitrary: q) simp_all

text \<open>
  The class attribute is never written: a constructor that succeeds leaves it as it
  was, and has appended the terms of the three files whenever it was false.
\<close>

lemma ReporterExtractor_init_keeps_class_flag:
  "ReporterExtractor_init p = Inr (p', x) \<Longrightarrow>
     ReporterExtractor_has_taxonomy p' = ReporterExtractor_has_taxonomy p"
  by (auto simp: ReporterExtractor_init_def create_taxonomy_def add_category_def
      fold_taxonomy_append split: if_splits sum.splits option.splits)

lemma ReporterExtractor_init_loads:
  "\<not> ReporterExtractor_has_taxonomy p \<Longrightarrow> ReporterExtractor_init p = Inr (p', x) \<Longrightarrow>
     \<exists>v s l. files p (lit ''data/reported_verbs.txt'') = Some v
       \<and> files p (lit ''data/sources.txt'') = Some s
       \<and> files p (lit ''data/locations.txt'') = Some l
       \<and> taxonomy p' = taxonomy p
            @ map (\<lambda>term. (rstrip_newline term, lit ''RPTVRB'')) v
            @ map (\<lambda>term. (rstrip_newline term, lit ''SOURCE'')) s
            @ map (\<lambda>term. (rstrip_newline term, lit ''LOCATION'')) l"
  by (auto simp: ReporterExtractor_init_def create_taxonomy_def add_category_def
      read_has_taxonomy_def new_instance_def fold_taxonomy_append
      split: if_splits sum.splits option.splits)

text \<open>
  C2. The claim is that after one extractor has loaded the taxonomy, constructing another
  appends no terms. In the code the flag is written on the instance and read, by the next
  instance, from the class: on the example files the first constructor makes the four
  calls of \<open>example_terms\<close> and the second constructor makes the same four calls again.
\<close>

theorem second_constructor_loads_taxonomy_again:
  "(case ReporterExtractor_init (fresh_process example_files) of
      Inl e \<Rightarrow> False
    | Inr (p1, x1) \<Rightarrow>
        taxonomy p1 = example_terms
        \<and> (case ReporterExtractor_init p1 of
             Inl e \<Rightarrow> False
           | Inr (p2, x2) \<Rightarrow> taxonomy p2 = example_terms @ example_terms))"
  by (simp add: ReporterExtractor_init_def create_taxonomy_def read_has_taxonomy_def
      add_category_def fresh_process_def example_files_def example_terms_def
      new_instance_def rstrip_newline_def lit_def)

section \<open>The proximity-based strategy on concrete texts\<close>

lemma clean_Llueve: "clean (lit ''Llueve'') = lit ''Llueve''"
  by (simp add: clean_def lit_def replace_char_def)

lemma clean_Pedro_dijo_hola: "clean (lit ''Pedro dijo hola'') = lit ''Pedro dijo hola''"
  by (simp add: clean_def lit_def replace_char_def)

lemma parse_Pedro_dijo_hola:
  "SpacyReporterExtractor_parse ner_provider x (lit ''Pedro dijo hola'') =
     Inr (x\<lparr>sources := [], reporters := [Pedro_reporter], entities := [Pedro_entity],
            tree := Some [\<lparr>s_string = lit ''Pedro dijo hola'', s_id = 1\<rparr>]\<rparr>)"
  unfolding SpacyReporterExtractor_parse_def clean_Pedro_dijo_hola
  by (simp add: extract_sources_def SpacyReporterExtractor_extract_reporters_def
      ner_provider_def scan_sentence_def scan_ent_def match_string_def dijo_def Pedro_PER_def
      Pedro_entity_def Pedro_reporter_def get_distance_def str_find_def max_dist_def lit_def
      Let_def)

lemma parse_Llueve:
  "SpacyReporterExtractor_parse ner_provider x (lit ''Llueve'') =
     Inr (x\<lparr>sources := [], reporters := [], entities := [],
            tree := Some [\<lparr>s_string = lit ''Llueve'', s_id = 1\<rparr>]\<rparr>)"
  unfolding SpacyReporterExtractor_parse_def clean_Llueve
  by (simp add: extract_sources_def SpacyReporterExtractor_extract_reporters_def
      ner_provider_def lit_def Let_def)

text \<open>
  C9. The claim is that after \<open>parse\<close> the three accessors succeed in any order. The
  proximity-based \<open>get_entities\<close> reads \<open>reporters_out\<close>, which only \<open>get_reporters\<close>
  assigns: on a new instance, \<open>get_entities\<close> called first after \<open>parse\<close> raises
  AttributeError.
\<close>

theorem get_entities_before_get_reporters_raises:
  "(case SpacyReporterExtractor_parse ner_provider fresh_extractor (lit ''Pedro dijo hola'') of
      Inl e \<Rightarrow> False
    | Inr x \<Rightarrow> SpacyReporterExtractor_get_entities x = Inl AttributeError)"
  unfolding parse_Pedro_dijo_hola
  by (simp add: SpacyReporterExtractor_get_entities_def fresh_extractor_def new_instance_def)

text \<open>
  C4. The claim is that after \<open>parse\<close> the entities and the reporters returned are
  disjoint. The proximity-based \<open>get_entities\<close> subtracts the reporters that the last
  call of \<open>get_reporters\<close> returned, which may belong to an earlier text: after
  \<open>parse\<close> of a text without reporters, \<open>get_reporters\<close>, and \<open>parse\<close> of
  "Pedro dijo hola", both \<open>get_entities\<close> and \<open>get_reporters\<close> return "Pedro".
\<close>

theorem stale_reporters_out_breaks_disjointness:
  "(case SpacyReporterExtractor_parse ner_provider fresh_extractor (lit ''Llueve'') of
      Inl e \<Rightarrow> False
    | Inr x1 \<Rightarrow>
   (case SpacyReporterExtractor_get_reporters x1 of
      (r1, x2) \<Rightarrow>
   (case SpacyReporterExtractor_parse ner_provider x2 (lit ''Pedro dijo hola'') of
      Inl e \<Rightarrow> False
    | Inr x3 \<Rightarrow>
   (case SpacyReporterExtractor_get_entities x3 of
      Inl e \<Rightarrow> False
    | Inr (es, x4) \<Rightarrow>
        es = [lit ''Pedro'']
        \<and> fst (SpacyReporterExtractor_get_reporters x4) = [lit ''Pedro'']))))"
  unfolding parse_Pedro_dijo_hola parse_Llueve
  by (simp add: SpacyReporterExtractor_get_entities_def SpacyReporterExtractor_get_reporters_def
      remove_duplicates_def repeated_def remain_def list_of_set_def set_difference_def
      Pedro_entity_def Pedro_reporter_def Let_def)

lemma near_text_Pedro: "get_distance (lit ''dijo'') (lit ''Pedro'') near_text = - 6"
  by code_simp

lemma near_text_Madrid: "get_distance (lit ''dijo'') (lit ''Madrid'') near_text = 113"
  by code_simp

lemma far_text_Pedro: "get_distance (lit ''dijo'') (lit ''Pedro'') far_text = - 107"
  by code_simp

lemma far_text_Madrid: "get_distance (lit ''dijo'') (lit ''Madrid'') far_text = 8"
  by code_simp

lemma entity_labels:
  "lit ''PER'' \<in> set [lit ''PER'', lit ''ORG'']"
  "lit ''LOC'' \<notin> set [lit ''PER'', lit ''ORG'']"
  by (simp_all add: lit_def)

lemma extract_reporters_near_text:
  "SpacyReporterExtractor_extract_reporters threshold_provider (parsed near_text) =
     Inr ((parsed near_text)\<lparr>entities := [Pedro_entity, Madrid_entity]\<rparr>)"
  using entity_labels
  by (simp add: SpacyReporterExtractor_extract_reporters_def threshold_provider_def
      scan_sentence_def scan_ent_def match_string_def dijo_def Pedro_PER_def Madrid_LOC_def
      Pedro_entity_def Madrid_entity_def near_text_Pedro near_text_Madrid max_dist_def
      parsed_def fresh_extractor_def new_instance_def Let_def
      del: set_simps List.set_simps)

lemma extract_reporters_far_text:
  "SpacyReporterExtractor_extract_reporters threshold_provider (parsed far_text) =
     Inr ((parsed far_text)\<lparr>entities := [Pedro_entity, Madrid_entity],
            reporters := [Pedro_reporter]\<rparr>)"
  using entity_labels
  by (simp add: SpacyReporterExtractor_extract_reporters_def threshold_provider_def
      scan_sentence_def scan_ent_def match_string_def dijo_def Pedro_PER_def Madrid_LOC_def
      Pedro_entity_def Madrid_entity_def Pedro_reporter_def far_text_Pedro far_text_Madrid
      max_dist_def parsed_def fresh_extractor_def new_instance_def Let_def
      del: set_simps List.set_simps)

text \<open>
  C1. The claim is that the nearest PER or ORG entity becomes a reporter exactly when its
  absolute offset is below 100. The code compares with 100 the offset of the last entity
  of the sentence, whatever its label: in \<open>near_text\<close> the person is 6 characters from
  the verb and no reporter is appended, because the location that follows is 113 away; in
  \<open>far_text\<close> the person is 107 characters away and is appended, because the location
  that follows is 8 away. Both entities are appended to the entities in both.
\<close>

theorem threshold_compares_last_entity:
  "get_distance (lit ''dijo'') (lit ''Pedro'') near_text = - 6
   \<and> reporter_names (SpacyReporterExtractor_extract_reporters threshold_provider
        (parsed near_text)) = Inr []
   \<and> entity_names (SpacyReporterExtractor_extract_reporters threshold_provider
        (parsed near_text)) = Inr [lit ''Pedro'', lit ''Madrid'']
   \<and> get_distance (lit ''dijo'') (lit ''Pedro'') far_text = - 107
   \<and> reporter_names (SpacyReporterExtractor_extract_reporters threshold_provider
        (parsed far_text)) = Inr [lit ''Pedro'']
   \<and> entity_names (SpacyReporterExtractor_extract_reporters threshold_provider
        (parsed far_text)) = Inr [lit ''Pedro'', lit ''Madrid'']"
  unfolding extract_reporters_near_text extract_reporters_far_text near_text_Pedro
    far_text_Pedro
  by (simp add: reporter_names_def entity_names_def parsed_def fresh_extractor_def
      new_instance_def Pedro_entity_def Madrid_entity_def Pedro_reporter_def)

section \<open>Grouping and packing\<close>

lemma groupby_Nil_iff: "groupby key xs = [] \<longleftrightarrow> xs = []"
  by (cases xs) simp_all

lemma groupby_nonempty_groups: "(k, g) \<in> set (groupby key xs) \<Longrightarrow> g \<noteq> []"
  by (induction key xs rule: groupby.induct) auto


lemma last_dropWhile: "dropWhile Q xs \<noteq> [] \<Longrightarrow> last (dropWhile Q xs) = last xs"
  by (induction xs) (auto split: if_splits)

lemma groupby_snoc:
  "groupby key (xs @ [y]) =
     (if xs \<noteq> [] \<and> key (last xs) = key y
      then butlast (groupby key xs) @ [(key y, snd (last (groupby key xs)) @ [y])]
      else groupby key xs @ [(key y, [y])])"
proof (induction key xs rule: groupby.induct)
  case (1 key)
  show ?case by simp
next
  case (2 key x xs)
  let ?Q = "\<lambda>z. key z = key x"
  show ?case
  proof (cases "dropWhile ?Q xs = []")
    case True
    then have all: "\<forall>z \<in> set xs. key z = key x"
      by (simp add: dropWhile_eq_Nil_conv)
    then have tw: "takeWhile ?Q xs = xs"
      by (simp add: takeWhile_eq_all_conv)
    have lastkey: "key (last (x # xs)) = key x"
      using all by (cases "xs = []") simp_all
    have g1: "groupby key (x # xs) = [(key x, x # xs)]"
      by (simp only: groupby.simps True tw)
    show ?thesis
    proof (cases "key y = key x")
      case y: True
      have t1: "takeWhile ?Q (xs @ [y]) = xs @ [y]"
        using all y by (simp add: takeWhile_eq_all_conv)
      have d1: "dropWhile ?Q (xs @ [y]) = []"
        using all y by (simp add: dropWhile_eq_Nil_conv)
      have g2: "groupby key ((x # xs) @ [y]) = [(key x, x # xs @ [y])]"
        by (simp only: append_Cons groupby.simps t1 d1)
      show ?thesis
        unfolding g1 g2 using lastkey y by simp
    next
      case y: False
      have t1: "takeWhile ?Q (xs @ [y]) = xs"
        using all y by (simp add: takeWhile_append2)
      have d1: "dropWhile ?Q (xs @ [y]) = [y]"
        using all y by (simp add: dropWhile_append2)
      have y1: "takeWhile ?Q [] = []" "dropWhile ?Q [] = []"
        by simp_all
      have g2: "groupby key ((x # xs) @ [y]) = [(key x, x # xs), (key y, [y])]"
        by (simp only: append_Cons groupby.simps t1 d1 takeWhile.simps dropWhile.simps)
      show ?thesis
        unfolding g1 g2 using lastkey y by simp
    qed
  next
    case False
    then obtain z where z: "z \<in> set xs" "\<not> ?Q z"
      by (auto simp: dropWhile_eq_Nil_conv)
    have tw: "takeWhile ?Q (xs @ [y]) = takeWhile ?Q xs"
      using z by (simp add: takeWhile_append1)
    have dw: "dropWhile ?Q (xs @ [y]) = dropWhile ?Q xs @ [y]"
      using z by (simp add: dropWhile_append1)
    have xs: "xs \<noteq> []" using z by auto
    have lst: "last (x # xs) = last (dropWhile ?Q xs)"
      using False xs by (simp add: last_dropWhile)
    have ne: "groupby key (dropWhile ?Q xs) \<noteq> []"
      using False by (simp add: groupby_Nil_iff)
    have g1: "groupby key (x # xs) = (key x, x # takeWhile ?Q xs) # groupby key (dropWhile ?Q xs)"
      by (simp only: groupby.simps)
    have g2: "groupby key ((x # xs) @ [y]) =
        (key x, x # takeWhile ?Q xs) # groupby key (dropWhile ?Q xs @ [y])"
      by (simp only: append_Cons groupby.simps tw dw)
    show ?thesis
      unfolding g1 g2 "2.IH" lst using ne False by simp
  qed
qed


lemma join_snoc: "xs \<noteq> [] \<Longrightarrow> join sep (xs @ [x]) = join sep xs @ sep # x"
  by (induction sep xs rule: join.induct) simp_all

lemma enumerate_snoc: "enumerate n (xs @ [x]) = enumerate n xs @ [(n + length xs, x)]"
  by (simp add: enumerate_append_eq)

lemma last_enumerate: "xs \<noteq> [] \<Longrightarrow> last (enumerate n xs) = (n + length xs - 1, last xs)"
  by (induction xs arbitrary: n rule: rev_induct) (simp_all add: enumerate_snoc)

lemma enumerate_Nil_iff: "enumerate n xs = [] \<longleftrightarrow> xs = []"
  by (cases xs) simp_all

lemma pack_list_alt: "pack_list data = map pack_name (groupby pack_key (enumerate 0 data))"
  by (simp add: pack_list_def pack_key_def pack_name_def)

lemma pack_list_Nil: "pack_list [] = []"
  by (simp add: pack_list_def)

lemma pack_list_Nil_iff: "pack_list data = [] \<longleftrightarrow> data = []"
  by (simp add: pack_list_def groupby_Nil_iff enumerate_Nil_iff)

lemma pack_list_snoc:
  "pack_list (data @ [w]) =
     (if data \<noteq> [] \<and> w_index w = w_index (last data) + 1
      then butlast (pack_list data) @ [last (pack_list data) @ space # w_string w]
      else pack_list data @ [w_string w])"
proof (cases "data = []")
  case True
  then show ?thesis by (simp add: pack_list_def)
next
  case False
  let ?G = "groupby pack_key (enumerate 0 data)"
  have ne: "?G \<noteq> []"
    using False by (simp add: groupby_Nil_iff enumerate_Nil_iff)
  obtain k g where kg: "last ?G = (k, g)"
    by (cases "last ?G")
  have "(k, g) \<in> set ?G"
    using ne kg last_in_set by metis
  then have g: "g \<noteq> []"
    by (rule groupby_nonempty_groups)
  have key: "pack_key (last (enumerate 0 data)) = pack_key (length data, w)
      \<longleftrightarrow> w_index w = w_index (last data) + 1"
  proof -
    have "int (length data - Suc 0) = int (length data) - 1"
      using False by (cases data) simp_all
    then show ?thesis
      using False by (auto simp: last_enumerate pack_key_def)
  qed
  have nm: "pack_name (k', g @ [(length data, w)]) = pack_name (k, g) @ space # w_string w" for k'
    using g by (simp add: pack_name_def join_snoc)
  have single: "pack_name (k', [(length data, w)]) = w_string w" for k'
    by (simp add: pack_name_def)
  show ?thesis
    unfolding pack_list_alt enumerate_snoc groupby_snoc
    using False ne key kg nm single
    by (simp add: enumerate_Nil_iff map_butlast last_map)
qed

section \<open>Sources are collected from every sentence\<close>

lemma fold_append_sources:
  "fold (\<lambda>w self. self\<lparr>sources := sources self @ [w]\<rparr>) m x = x\<lparr>sources := sources x @ m\<rparr>"
  by (induction m arbitrary: x) simp_all

lemma fold_matches_sources:
  "fold (\<lambda>m. fold (\<lambda>w self. self\<lparr>sources := sources self @ [w]\<rparr>) m) ms x =
     x\<lparr>sources := sources x @ concat ms\<rparr>"
  by (induction ms arbitrary: x) (simp_all add: fold_append_sources)

lemma fold_sentences_sources:
  "fold (\<lambda>sentence. fold (\<lambda>m. fold (\<lambda>w self. self\<lparr>sources := sources self @ [w]\<rparr>) m)
           (search_source P sentence)) t x =
     x\<lparr>sources := sources x @ all_source_words P t\<rparr>"
  by (induction t arbitrary: x) (simp_all add: fold_matches_sources all_source_words_def)

lemma extract_sources_eq:
  "tree x = Some t \<Longrightarrow>
     extract_sources P x = Inr (x\<lparr>sources := sources x @ all_source_words P t\<rparr>)"
  by (simp add: extract_sources_def fold_sentences_sources)

lemma foldE_append:
  "foldE f (xs @ ys) s = (case foldE f xs s of Inl e \<Rightarrow> Inl e | Inr s' \<Rightarrow> foldE f ys s')"
  by (induction xs arbitrary: s) (simp_all split: sum.splits)

lemma foldE_concat: "foldE (\<lambda>m. foldE f m) ms s = foldE f (concat ms) s"
  by (induction ms arbitrary: s) (simp_all add: foldE_append split: sum.splits)

lemma foldE_concat_map:
  "foldE (\<lambda>a. foldE (\<lambda>m. foldE f m) (g a)) as s = foldE f (concat (map (\<lambda>a. concat (g a)) as)) s"
  by (induction as arbitrary: s) (simp_all add: foldE_append foldE_concat split: sum.splits)











section \<open>The role-based strategy on a concrete text\<close>

lemma replace_char_absent: "c \<notin> set s \<Longrightarrow> replace_char c r s = s"
  by (induction s) (simp_all add: replace_char_def)

lemma clean_unchanged:
  "set s \<inter> {34, 39, 8221, 8220, 191, 63, 33, 161, 47, 9472} = {} \<Longrightarrow> clean s = s"
  by (simp add: clean_def replace_char_absent)

lemmas role_words =
  Luis_0_def de_1_def Guindos_2_def afirmo_3_def que_4_def Pedro_5_def Sanchez_6_def
  llamo_7_def a_8_def Pedro_9_def Reuters_0_def y_1_def Thomson_2_def Reuters_3_def
  publican_4_def tok_def

lemma clean_role_text: "clean role_text = role_text"
  by (rule clean_unchanged)
     (simp add: role_text_def sentence1_def sentence2_def sentence1_words_def
       sentence2_words_def role_words lit_def space_def)

lemma role_previous:
  "previous role_provider Luis_0 = None"
  "previous role_provider de_1 = None"
  "previous role_provider Guindos_2 = Some de_1"
  "previous role_provider Pedro_5 = Some que_4"
  "previous role_provider Sanchez_6 = Some Pedro_5"
  "previous role_provider Pedro_9 = Some a_8"
  "previous role_provider que_4 = Some afirmo_3"
  "previous role_provider a_8 = Some llamo_7"
  by (simp_all add: role_provider_def Word_previous_def sentence1_words_def role_words)

lemma role_composed:
  "\<not> is_composed_noun role_provider Luis_0"
  "\<not> is_composed_noun role_provider Guindos_2"
  "\<not> is_composed_noun role_provider Pedro_5"
  "\<not> is_composed_noun role_provider Sanchez_6"
  "\<not> is_composed_noun role_provider Pedro_9"
  by (simp_all add: is_composed_noun_def role_previous)
     (simp_all add: role_words lit_def)

lemma role_roles:
  "has_reporter_role role_provider Luis_0 = Inr True"
  "has_reporter_role role_provider Guindos_2 = Inr True"
  "has_reporter_role role_provider Pedro_5 = Inr False"
  "has_reporter_role role_provider Sanchez_6 = Inr False"
  "has_reporter_role role_provider Pedro_9 = Inr False"
  by (simp_all add: has_reporter_role_def role_provider_def role_words subject_of_def
      no_role_def lit_def)

lemma role_classify:
  "classify_word role_provider Luis_0 x = Inr (x\<lparr>reporters := reporters x @ [Luis_0]\<rparr>)"
  "classify_word role_provider Guindos_2 x = Inr (x\<lparr>reporters := reporters x @ [Guindos_2]\<rparr>)"
  "classify_word role_provider Pedro_5 x = Inr (x\<lparr>entities := entities x @ [Pedro_5]\<rparr>)"
  "classify_word role_provider Sanchez_6 x = Inr (x\<lparr>entities := entities x @ [Sanchez_6]\<rparr>)"
  "classify_word role_provider Pedro_9 x = Inr (x\<lparr>entities := entities x @ [Pedro_9]\<rparr>)"
  by (simp_all add: classify_word_def role_roles composed_prefix_def role_composed role_previous)

lemma role_searches:
  "search_trigger role_provider sentence1 = [[afirmo_3]]"
  "search_trigger role_provider sentence2 = []"
  "search_nnp role_provider sentence1 = [[Luis_0], [Guindos_2], [Pedro_5, Sanchez_6], [Pedro_9]]"
  "search_source role_provider sentence1 = []"
  "search_source role_provider sentence2 = [[Reuters_0], [Thomson_2], [Reuters_3]]"
  "parsetree role_provider role_text = [sentence1, sentence2]"
  by (simp_all add: role_provider_def sentence1_def sentence2_def)

lemma parse_role_text:
  "ReporterExtractor_parse role_provider fresh_extractor role_text = Inr role_result"
  unfolding ReporterExtractor_parse_def clean_role_text
  by (simp add: Let_def role_searches extract_sources_eq all_source_words_def
      ReporterExtractor_extract_reporters_def role_classify role_result_def fresh_extractor_def
      new_instance_def)

lemma role_packed:
  "pack_list [Reuters_0, Thomson_2, Reuters_3] = [lit ''Reuters'', lit ''Thomson Reuters'']"
  "pack_list [Luis_0, Guindos_2] = [Luis, Guindos]"
  "pack_list [Luis_0, de_1, Guindos_2] = [Luis_de_Guindos]"
  "pack_list [Pedro_5, Sanchez_6, Pedro_9] = [Pedro_Sanchez, lit ''Pedro'']"
  by (simp_all add: pack_list_def enumerate_eq_zip upt_rec role_words
      Luis_de_Guindos_def Luis_def Guindos_def Pedro_Sanchez_def lit_def space_def)

section \<open>Classification, composed nouns, empty text, deduplication\<close>

lemma classify_word_eq:
  "classify_word P w x =
     (if chunk_readable w
      then Inr (if governed_by_taxonomy_verb P w
                then x\<lparr>reporters := reporters x @ with_prefix P w\<rparr>
                else x\<lparr>entities := entities x @ with_prefix P w\<rparr>)
      else Inl AttributeError)"
  by (simp add: classify_word_def has_reporter_role_def chunk_readable_def
      governed_by_taxonomy_verb_def with_prefix_def split: option.splits)

lemma foldE_classify_word:
  "foldE (classify_word P) ws x =
     (if \<forall>w \<in> set ws. chunk_readable w
      then Inr (x\<lparr>reporters := reporters x
                    @ concat (map (with_prefix P) (filter (governed_by_taxonomy_verb P) ws)),
                  entities := entities x
                    @ concat (map (with_prefix P)
                        (filter (\<lambda>w. \<not> governed_by_taxonomy_verb P w) ws))\<rparr>)
      else Inl AttributeError)"
proof (induction ws arbitrary: x)
  case Nil
  show ?case by simp
next
  case (Cons w ws)
  show ?case
  proof (cases "chunk_readable w")
    case False
    then have "classify_word P w x = Inl AttributeError"
      by (simp add: classify_word_eq)
    then show ?thesis
      using False by simp
  next
    case True
    show ?thesis
    proof (cases "governed_by_taxonomy_verb P w")
      case g: True
      have "classify_word P w x = Inr (x\<lparr>reporters := reporters x @ with_prefix P w\<rparr>)"
        using True g by (simp add: classify_word_eq)
      then have "foldE (classify_word P) (w # ws) x
          = foldE (classify_word P) ws (x\<lparr>reporters := reporters x @ with_prefix P w\<rparr>)"
        by simp
      then show ?thesis
        unfolding Cons.IH using True g by simp
    next
      case g: False
      have "classify_word P w x = Inr (x\<lparr>entities := entities x @ with_prefix P w\<rparr>)"
        using True g by (simp add: classify_word_eq)
      then have "foldE (classify_word P) (w # ws) x
          = foldE (classify_word P) ws (x\<lparr>entities := entities x @ with_prefix P w\<rparr>)"
        by simp
      then show ?thesis
        unfolding Cons.IH using True g by simp
    qed
  qed
qed

lemma is_composed_noun_iff:
  "is_composed_noun P w \<longleftrightarrow>
     (\<exists>p pp. previous P w = Some p \<and> previous P p = Some pp
        \<and> w_string p \<in> {lit ''de'', lit ''en'', lit ''del''}
        \<and> w_tag pp = Some (lit ''NNP''))"
  by (auto simp: is_composed_noun_def split: option.splits)

lemma classify_word_composed:
  assumes "is_composed_noun P w" and "previous P w = Some p"
    and "classify_word P w self = Inr self'"
  shows "(reporters self' = reporters self @ [p, w] \<and> entities self' = entities self)
       \<or> (entities self' = entities self @ [p, w] \<and> reporters self' = reporters self)"
  using assms
  by (auto simp: classify_word_def composed_prefix_def split: sum.splits if_splits)

lemma classify_word_simple:
  assumes "\<not> is_composed_noun P w" and "classify_word P w self = Inr self'"
  shows "(reporters self' = reporters self @ [w] \<and> entities self' = entities self)
       \<or> (entities self' = entities self @ [w] \<and> reporters self' = reporters self)"
  using assms
  by (auto simp: classify_word_def composed_prefix_def split: sum.splits if_splits)

lemma pack_list_composed:
  assumes "w_index w = w_index p + 1"
  shows "\<exists>names n. pack_list (data @ [p, w]) = names @ [n @ w_string p @ space # w_string w]"
proof -
  have ne: "pack_list (data @ [p]) \<noteq> []"
    by (simp add: pack_list_Nil_iff)
  have "pack_list (data @ [p, w]) = pack_list ((data @ [p]) @ [w])"
    by simp
  also have "\<dots> = butlast (pack_list (data @ [p]))
      @ [last (pack_list (data @ [p])) @ space # w_string w]"
    using assms by (subst pack_list_snoc) simp
  finally have eq: "pack_list (data @ [p, w]) = butlast (pack_list (data @ [p]))
      @ [last (pack_list (data @ [p])) @ space # w_string w]" .
  have "\<exists>n. last (pack_list (data @ [p])) = n @ w_string p"
  proof (cases "data \<noteq> [] \<and> w_index p = w_index (last data) + 1")
    case True
    then have "last (pack_list (data @ [p])) = (last (pack_list data) @ [space]) @ w_string p"
      by (simp add: pack_list_snoc)
    then show ?thesis by blast
  next
    case False
    then have "last (pack_list (data @ [p])) = [] @ w_string p"
      by (auto simp: pack_list_snoc)
    then show ?thesis by blast
  qed
  then obtain n where "last (pack_list (data @ [p])) = n @ w_string p" ..
  then show ?thesis
    using eq by auto
qed

lemma clean_Nil: "clean [] = []"
  by (simp add: clean_def replace_char_def)

lemma parse_empty:
  assumes "parsetree P [] = []"
  shows "ReporterExtractor_parse P self [] = Inr (emptied self)"
    and "SpacyReporterExtractor_parse P self [] = Inr (emptied self)"
  using assms
  by (simp_all add: ReporterExtractor_parse_def SpacyReporterExtractor_parse_def clean_Nil
      extract_sources_def ReporterExtractor_extract_reporters_def
      SpacyReporterExtractor_extract_reporters_def emptied_def Let_def)

lemma remove_duplicates_Nil: "remove_duplicates [] = []"
  by (simp add: remove_duplicates_def list_of_set_def)

lemma accessors_emptied:
  "ReporterExtractor_get_reporters (emptied self) = ([], (emptied self)\<lparr>reporters_out := Some []\<rparr>)"
  "SpacyReporterExtractor_get_reporters (emptied self) = ([], (emptied self)\<lparr>reporters_out := Some []\<rparr>)"
  "get_sources (emptied self) = []"
  "get_sources ((emptied self)\<lparr>reporters_out := r\<rparr>) = []"
  "ReporterExtractor_get_entities (emptied self) = []"
  "ReporterExtractor_get_entities ((emptied self)\<lparr>reporters_out := r\<rparr>) = []"
  by (simp_all add: ReporterExtractor_get_reporters_def SpacyReporterExtractor_get_reporters_def
      get_sources_def ReporterExtractor_get_entities_def
      emptied_def pack_list_Nil remove_duplicates_Nil set_difference_def list_of_set_def Let_def)

lemma proximity_get_entities_emptied:
  "map_sum id fst (SpacyReporterExtractor_get_entities
     ((emptied self)\<lparr>reporters_out := Some names\<rparr>)) = Inr []"
  by (simp add: SpacyReporterExtractor_get_entities_def emptied_def set_difference_def
      list_of_set_def Let_def)

lemma remove_duplicates_subset: "set (remove_duplicates names) \<subseteq> set names"
  unfolding remove_duplicates_eq by (simp add: subset_iff)

lemma remove_duplicates_no_strict_substring:
  assumes "a \<in> set (remove_duplicates names)" and "b \<in> set (remove_duplicates names)"
    and "sublist a b"
  shows "a = b"
proof (rule ccontr)
  assume "a \<noteq> b"
  then have ne: "b \<noteq> a" by simp
  have b: "b \<in> set names"
    using assms(2) remove_duplicates_subset by (rule subsetD [rotated])
  have "\<not> repeated names a"
    using assms(1) unfolding remove_duplicates_eq by simp
  moreover have "repeated names a"
    unfolding repeated_iff
  proof (rule bexI [OF _ b])
    show "b \<noteq> a \<and> sublist a b"
      using ne assms(3) by (rule conjI)
  qed
  ultimately show False by (rule notE)
qed

lemma role_based_entities_reporters_disjoint:
  "set (ReporterExtractor_get_entities x) \<inter> set (fst (ReporterExtractor_get_reporters x)) = {}"
proof -
  have "set (fst (ReporterExtractor_get_reporters x)) \<subseteq> set (pack_list (reporters x))"
    by (simp add: ReporterExtractor_get_reporters_def Let_def remove_duplicates_subset)
  moreover have "set (ReporterExtractor_get_entities x) \<inter> set (pack_list (reporters x)) = {}"
    by (simp add: ReporterExtractor_get_entities_def set_difference_def list_of_set_def
        disjoint_iff)
  ultimately show ?thesis
    by blast
qed

lemma proximity_entities_reporters_disjoint_in_order:
  assumes "SpacyReporterExtractor_get_reporters x = (r, x')"
  shows "\<exists>es x''. SpacyReporterExtractor_get_entities x' = Inr (es, x'') \<and> set es \<inter> set r = {}"
proof -
  have r: "reporters_out x' = Some r" and e: "entities x' = entities x"
    using assms by (auto simp: SpacyReporterExtractor_get_reporters_def Let_def)
  have "SpacyReporterExtractor_get_entities x' =
      Inr (set_difference (map w_string (entities x')) r,
           x'\<lparr>entities_out := Some (map w_string (entities x'))\<rparr>)"
    by (simp add: SpacyReporterExtractor_get_entities_def Let_def r)
  moreover have "set (set_difference (map w_string (entities x')) r) \<inter> set r = {}"
    by (simp add: set_difference_def list_of_set_def disjoint_iff)
  ultimately show ?thesis by blast
qed

text \<open>
  C6. In the role-based strategy the selected sentences are exactly those in which the
  search of the trigger pattern (a reported-speech verb of the taxonomy, or "seg\'un")
  finds a match, and every candidate word of their proper-noun matches goes to the
  reporters when its chunk has a role and the lemma of the verb of that chunk is in the
  taxonomy, and to the entities otherwise, in the order of the text and with the
  preposition of a composed noun before it. The extraction returns this whenever every
  candidate has a chunk, and each chunk with a role has a verb; it raises AttributeError
  otherwise.
\<close>

theorem role_based_classification:
  "tree self = Some t \<Longrightarrow>
   ReporterExtractor_extract_reporters P self =
     (if \<forall>w \<in> set (candidates P t). chunk_readable w
      then Inr (self\<lparr>reporters := reporters self
                    @ concat (map (with_prefix P)
                        (filter (governed_by_taxonomy_verb P) (candidates P t))),
                  entities := entities self
                    @ concat (map (with_prefix P)
                        (filter (\<lambda>w. \<not> governed_by_taxonomy_verb P w) (candidates P t)))\<rparr>)
      else Inl AttributeError)"
proof -
  assume t: "tree self = Some t"
  have "ReporterExtractor_extract_reporters P self
      = foldE (classify_word P) (candidates P t) self"
    by (simp add: ReporterExtractor_extract_reporters_def t foldE_concat_map candidates_def
        selected_def)
  then show ?thesis
    by (simp only: foldE_classify_word)
qed

text \<open>
  Over any \<open>previous\<close>: \<open>is_composed_noun w\<close> holds exactly when \<open>previous\<close> gives a
  word for \<open>w\<close> and a word for that word, the first is "de", "en" or "del" and the second
  is tagged NNP; then the first is appended to the list that receives \<open>w\<close>, immediately
  before \<open>w\<close>, and otherwise \<open>w\<close> alone is appended. \<open>pack_list\<close> joins a word to the
  name before it with one space when its index follows the index of the word before it in
  the list, and starts a new name otherwise; so the last name packed from a list that ends
  with the preposition and \<open>w\<close>, of consecutive indices, ends with the two strings joined
  by a space.
\<close>

lemma composed_noun_and_packing:
  "(is_composed_noun P w \<longleftrightarrow>
      (\<exists>p pp. previous P w = Some p \<and> previous P p = Some pp
         \<and> w_string p \<in> {lit ''de'', lit ''en'', lit ''del''}
         \<and> w_tag pp = Some (lit ''NNP'')))
   \<and> (is_composed_noun P w \<longrightarrow> previous P w = Some p \<longrightarrow> classify_word P w self = Inr self' \<longrightarrow>
        (reporters self' = reporters self @ [p, w] \<and> entities self' = entities self)
        \<or> (entities self' = entities self @ [p, w] \<and> reporters self' = reporters self))
   \<and> (\<not> is_composed_noun P w \<longrightarrow> classify_word P w self = Inr self' \<longrightarrow>
        (reporters self' = reporters self @ [w] \<and> entities self' = entities self)
        \<or> (entities self' = entities self @ [w] \<and> reporters self' = reporters self))
   \<and> pack_list (data @ [w]) =
        (if data \<noteq> [] \<and> w_index w = w_index (last data) + 1
         then butlast (pack_list data) @ [last (pack_list data) @ space # w_string w]
         else pack_list data @ [w_string w])
   \<and> (w_index w = w_index p + 1 \<longrightarrow>
        (\<exists>names n. pack_list (data @ [p, w]) = names @ [n @ w_string p @ space # w_string w]))"
proof (intro conjI impI)
  show "is_composed_noun P w \<longleftrightarrow>
      (\<exists>p pp. previous P w = Some p \<and> previous P p = Some pp
         \<and> w_string p \<in> {lit ''de'', lit ''en'', lit ''del''}
         \<and> w_tag pp = Some (lit ''NNP''))"
    by (rule is_composed_noun_iff)
next
  assume "is_composed_noun P w" "previous P w = Some p" "classify_word P w self = Inr self'"
  then show "(reporters self' = reporters self @ [p, w] \<and> entities self' = entities self)
        \<or> (entities self' = entities self @ [p, w] \<and> reporters self' = reporters self)"
    by (rule classify_word_composed)
next
  assume "\<not> is_composed_noun P w" "classify_word P w self = Inr self'"
  then show "(reporters self' = reporters self @ [w] \<and> entities self' = entities self)
        \<or> (entities self' = entities self @ [w] \<and> reporters self' = reporters self)"
    by (rule classify_word_simple)
next
  show "pack_list (data @ [w]) =
        (if data \<noteq> [] \<and> w_index w = w_index (last data) + 1
         then butlast (pack_list data) @ [last (pack_list data) @ space # w_string w]
         else pack_list data @ [w_string w])"
    by (rule pack_list_snoc)
next
  assume "w_index w = w_index p + 1"
  then show "\<exists>names n. pack_list (data @ [p, w]) = names @ [n @ w_string p @ space # w_string w]"
    by (rule pack_list_composed)
qed

text \<open>
  When the parser returns no sentence for the empty text, \<open>parse\<close> of the empty text
  succeeds in both strategies and leaves the three lists empty; \<open>get_reporters\<close> and
  \<open>get_sources\<close> then return the empty list, and so does \<open>get_entities\<close>: in the
  role-based strategy before or after \<open>get_reporters\<close>, in the proximity-based one after
  \<open>get_reporters\<close> or on any instance on which \<open>get_reporters\<close> has run before.
\<close>

lemma empty_text_gives_empty_lists:
  "parsetree P [] = [] \<Longrightarrow>
     ReporterExtractor_parse P self [] = Inr (emptied self)
     \<and> ReporterExtractor_get_reporters (emptied self)
         = ([], (emptied self)\<lparr>reporters_out := Some []\<rparr>)
     \<and> get_sources (emptied self) = []
     \<and> ReporterExtractor_get_entities (emptied self) = []
     \<and> get_sources ((emptied self)\<lparr>reporters_out := Some []\<rparr>) = []
     \<and> ReporterExtractor_get_entities ((emptied self)\<lparr>reporters_out := Some []\<rparr>) = []
     \<and> SpacyReporterExtractor_parse P self [] = Inr (emptied self)
     \<and> SpacyReporterExtractor_get_reporters (emptied self)
         = ([], (emptied self)\<lparr>reporters_out := Some []\<rparr>)
     \<and> map_sum id fst (SpacyReporterExtractor_get_entities
          ((emptied self)\<lparr>reporters_out := Some []\<rparr>)) = Inr []
     \<and> (\<forall>names. reporters_out self = Some names \<longrightarrow>
          map_sum id fst (SpacyReporterExtractor_get_entities (emptied self)) = Inr [])"
proof -
  assume p: "parsetree P [] = []"
  have "map_sum id fst (SpacyReporterExtractor_get_entities (emptied self)) = Inr []"
    if "reporters_out self = Some names" for names
  proof -
    have "emptied self = (emptied self)\<lparr>reporters_out := Some names\<rparr>"
      using that by (simp add: emptied_def)
    then show ?thesis
      using proximity_get_entities_emptied [where self = self and names = names] by simp
  qed
  then show ?thesis
    by (simp add: parse_empty [OF p] accessors_emptied proximity_get_entities_emptied)
qed

text \<open>
  C3, as amended. In the list that \<open>get_reporters\<close> returns, in either strategy, no element
  is a strict substring of another element, and no element occurs twice. (\<open>get_sources\<close>
  returns the packed sources as they are, and \<open>get_entities\<close> removes only the names
  equal to a reporter name.)
\<close>

theorem reporters_contain_no_strict_substring:
  "(\<forall>a \<in> set (fst (ReporterExtractor_get_reporters x)).
      \<forall>b \<in> set (fst (ReporterExtractor_get_reporters x)). sublist a b \<longrightarrow> a = b)
   \<and> distinct (fst (ReporterExtractor_get_reporters x))
   \<and> (\<forall>a \<in> set (fst (SpacyReporterExtractor_get_reporters x)).
      \<forall>b \<in> set (fst (SpacyReporterExtractor_get_reporters x)). sublist a b \<longrightarrow> a = b)
   \<and> distinct (fst (SpacyReporterExtractor_get_reporters x))"
proof (intro conjI ballI impI)
  fix a b
  assume "a \<in> set (fst (ReporterExtractor_get_reporters x))"
    "b \<in> set (fst (ReporterExtractor_get_reporters x))" "sublist a b"
  then show "a = b"
    unfolding ReporterExtractor_get_reporters_def Let_def fst_conv
    by (rule remove_duplicates_no_strict_substring)
next
  fix a b
  assume "a \<in> set (fst (SpacyReporterExtractor_get_reporters x))"
    "b \<in> set (fst (SpacyReporterExtractor_get_reporters x))" "sublist a b"
  then show "a = b"
    unfolding SpacyReporterExtractor_get_reporters_def Let_def fst_conv
    by (rule remove_duplicates_no_strict_substring)
next
  show "distinct (fst (ReporterExtractor_get_reporters x))"
    unfolding ReporterExtractor_get_reporters_def Let_def fst_conv
    by (rule distinct_remove_duplicates)
next
  show "distinct (fst (SpacyReporterExtractor_get_reporters x))"
    unfolding SpacyReporterExtractor_get_reporters_def Let_def fst_conv
    by (rule distinct_remove_duplicates)
qed

section \<open>Sources of every sentence, and the concrete instances\<close>


lemma role_get_sources:
  "get_sources role_result = [lit ''Reuters'', lit ''Thomson Reuters'']"
  by (simp add: get_sources_def role_result_def role_packed)


lemma role_candidates:
  "candidates role_provider [sentence1, sentence2] =
     [Luis_0, Guindos_2, Pedro_5, Sanchez_6, Pedro_9]"
  by (simp add: candidates_def selected_def role_searches)

lemma role_readable:
  "chunk_readable Luis_0" "chunk_readable Guindos_2" "chunk_readable Pedro_5"
  "chunk_readable Sanchez_6" "chunk_readable Pedro_9"
  by (simp_all add: chunk_readable_def role_words subject_of_def no_role_def)

lemma role_governed:
  "governed_by_taxonomy_verb role_provider Luis_0"
  "governed_by_taxonomy_verb role_provider Guindos_2"
  "\<not> governed_by_taxonomy_verb role_provider Pedro_5"
  "\<not> governed_by_taxonomy_verb role_provider Sanchez_6"
  "\<not> governed_by_taxonomy_verb role_provider Pedro_9"
  by (simp_all add: governed_by_taxonomy_verb_def role_provider_def role_words subject_of_def
      no_role_def lit_def)

lemma role_with_prefix:
  "with_prefix role_provider Luis_0 = [Luis_0]"
  "with_prefix role_provider Guindos_2 = [Guindos_2]"
  "with_prefix role_provider Pedro_5 = [Pedro_5]"
  "with_prefix role_provider Sanchez_6 = [Sanchez_6]"
  "with_prefix role_provider Pedro_9 = [Pedro_9]"
  by (simp_all add: with_prefix_def composed_prefix_def role_composed role_previous)

theorem role_based_classification_witness:
  "tree role_parsed = Some [sentence1, sentence2]
   \<and> ReporterExtractor_extract_reporters role_provider role_parsed =
       Inr (role_parsed\<lparr>reporters := [Luis_0, Guindos_2],
              entities := [Pedro_5, Sanchez_6, Pedro_9]\<rparr>)"
proof -
  have t: "tree role_parsed = Some [sentence1, sentence2]"
    by (simp add: role_parsed_def)
  have e: "reporters role_parsed = []" "entities role_parsed = []"
    by (simp_all add: role_parsed_def fresh_extractor_def new_instance_def)
  show ?thesis
    using role_based_classification [OF t, of role_provider] t
    by (simp add: role_candidates role_readable role_governed role_with_prefix e)
qed

text \<open>
  From position 3 on, \<open>Word_previous\<close> gives the two words before a word; at position 2
  it gives the word before and then nothing.
\<close>

lemma Word_previous_from_position_3:
  assumes "3 \<le> w_index w" and "w_index w < int (length ws)"
    and "\<forall>i < length ws. w_index (ws ! i) = int i"
  shows "Word_previous ws w = Some (ws ! nat (w_index w - 1))"
    and "Word_previous ws (ws ! nat (w_index w - 1)) = Some (ws ! nat (w_index w - 2))"
proof -
  show "Word_previous ws w = Some (ws ! nat (w_index w - 1))"
    using assms(1,2) by (simp add: Word_previous_def Let_def)
  have "nat (w_index w - 1) < length ws"
    using assms(1,2) by simp
  then have "w_index (ws ! nat (w_index w - 1)) = w_index w - 1"
    using assms(1,3) by simp
  then show "Word_previous ws (ws ! nat (w_index w - 1)) = Some (ws ! nat (w_index w - 2))"
    using assms(1,2) by (simp add: Word_previous_def Let_def)
qed

text \<open>
  C7. The claim is that \<open>_is_composed_noun(w)\<close> is true exactly when the word before
  \<open>w\<close> is "de", "en" or "del" and the word before that one is a proper noun, and that
  the preposition then goes into the list before \<open>w\<close>, so that packing reassembles the
  name. The test reads the two words with \<open>previous\<close>, which never returns the first word
  of a sentence: in "Lu\'is de Guindos afirm\'o ..." the word before "Guindos" is "de" and the
  word before "de" is "Lu\'is", tagged NNP, but \<open>previous\<close> of "de" is \<^verbatim>\<open>None\<close>, the test
  is false, "Guindos" is appended alone, and the reporters are packed as the two names
  "Lu\'is" and "Guindos"; with the preposition between them the three words would pack as
  the one name.
\<close>

theorem composed_noun_at_sentence_start_is_missed:
  "sentence1_words ! 2 = Guindos_2
   \<and> sentence1_words ! 1 = de_1
   \<and> sentence1_words ! 0 = Luis_0
   \<and> w_string de_1 = lit ''de''
   \<and> w_tag Luis_0 = Some (lit ''NNP'')
   \<and> previous role_provider Guindos_2 = Some de_1
   \<and> previous role_provider de_1 = None
   \<and> \<not> is_composed_noun role_provider Guindos_2
   \<and> classify_word role_provider Guindos_2 fresh_extractor =
       Inr (fresh_extractor\<lparr>reporters := [Guindos_2]\<rparr>)
   \<and> map_sum id reporters (ReporterExtractor_parse role_provider fresh_extractor role_text) =
       Inr [Luis_0, Guindos_2]
   \<and> pack_list [Luis_0, Guindos_2] = [Luis, Guindos]
   \<and> pack_list [Luis_0, de_1, Guindos_2] = [Luis_de_Guindos]"
proof -
  have w: "sentence1_words ! 2 = Guindos_2" "sentence1_words ! 1 = de_1"
    "sentence1_words ! 0 = Luis_0"
    by (simp_all add: sentence1_words_def)
  have a: "w_string de_1 = lit ''de''" "w_tag Luis_0 = Some (lit ''NNP'')"
    by (simp_all add: role_words)
  have k: "classify_word role_provider Guindos_2 fresh_extractor =
       Inr (fresh_extractor\<lparr>reporters := [Guindos_2]\<rparr>)"
    by (simp add: role_classify fresh_extractor_def new_instance_def)
  have r: "map_sum id reporters
        (ReporterExtractor_parse role_provider fresh_extractor role_text) =
       Inr [Luis_0, Guindos_2]"
    by (simp add: parse_role_text role_result_def)
  show ?thesis
    using w a k r role_previous(2,3) role_composed(2) role_packed(2,3)
    by (simp only: simp_thms)
qed

lemma empty_text_on_reused_extractor:
  "parsetree ner_provider [] = []
   \<and> reporters_out reused_extractor = Some [lit ''Pedro'']
   \<and> ReporterExtractor_parse ner_provider reused_extractor [] = Inr (emptied reused_extractor)
   \<and> SpacyReporterExtractor_parse ner_provider reused_extractor [] =
       Inr (emptied reused_extractor)
   \<and> fst (SpacyReporterExtractor_get_reporters (emptied reused_extractor)) = []
   \<and> get_sources (emptied reused_extractor) = []
   \<and> map_sum id fst (SpacyReporterExtractor_get_entities (emptied reused_extractor)) = Inr []"
proof -
  have p: "parsetree ner_provider [] = []"
    by (simp add: ner_provider_def)
  have r: "reporters_out reused_extractor = Some [lit ''Pedro'']"
    by (simp add: reused_extractor_def)
  show ?thesis
    using empty_text_gives_empty_lists [OF p, of reused_extractor] p r
    by simp
qed

text \<open>
  C10. The claim is that after \<open>parse\<close> of the empty text each accessor returns an empty
  sequence. In the proximity-based strategy \<open>parse\<close> of the empty text succeeds and
  empties the three lists, \<open>get_reporters\<close> and \<open>get_sources\<close> return the empty list,
  but \<open>get_entities\<close>, on a new instance, raises AttributeError: it reads
  \<open>reporters_out\<close>, which only \<open>get_reporters\<close> assigns.
\<close>

theorem get_entities_after_empty_parse_raises:
  "parsetree ner_provider [] = []
   \<and> SpacyReporterExtractor_parse ner_provider fresh_extractor [] =
       Inr (emptied fresh_extractor)
   \<and> sources (emptied fresh_extractor) = []
   \<and> reporters (emptied fresh_extractor) = []
   \<and> entities (emptied fresh_extractor) = []
   \<and> fst (SpacyReporterExtractor_get_reporters (emptied fresh_extractor)) = []
   \<and> get_sources (emptied fresh_extractor) = []
   \<and> SpacyReporterExtractor_get_entities (emptied fresh_extractor) = Inl AttributeError"
proof -
  have p: "parsetree ner_provider [] = []"
    by (simp add: ner_provider_def)
  have e: "SpacyReporterExtractor_get_entities (emptied fresh_extractor) = Inl AttributeError"
    by (simp add: SpacyReporterExtractor_get_entities_def emptied_def fresh_extractor_def
        new_instance_def)
  show ?thesis
    using p e by (simp add: parse_empty [OF p] accessors_emptied) (simp add: emptied_def)
qed

lemma reporters_example_names:
  "fst (ReporterExtractor_get_reporters reporters_example) =
     remove_duplicates [Luis_de_Guindos, lit ''Guindos'', lit ''Pedro'']"
  by (simp add: ReporterExtractor_get_reporters_def Let_def reporters_example_def pack_list_def
      enumerate_eq_zip upt_rec role_words Guindos_7_def Luis_de_Guindos_def lit_def space_def)

lemma reporters_example_set:
  "set (remove_duplicates [Luis_de_Guindos, lit ''Guindos'', lit ''Pedro'']) =
     {Luis_de_Guindos, lit ''Pedro''}"
  by code_simp

theorem reporters_contain_no_strict_substring_witness:
  "set (fst (ReporterExtractor_get_reporters reporters_example)) =
     {Luis_de_Guindos, lit ''Pedro''}
   \<and> \<not> sublist (lit ''Pedro'') Luis_de_Guindos
   \<and> \<not> sublist Luis_de_Guindos (lit ''Pedro'')"
proof -
  have s: "set (fst (ReporterExtractor_get_reporters reporters_example)) =
     {Luis_de_Guindos, lit ''Pedro''}"
    by (simp only: reporters_example_names reporters_example_set)
  have ne: "lit ''Pedro'' \<noteq> Luis_de_Guindos"
    by code_simp
  have a: "Luis_de_Guindos \<in> set (fst (ReporterExtractor_get_reporters reporters_example))"
    and b: "lit ''Pedro'' \<in> set (fst (ReporterExtractor_get_reporters reporters_example))"
    unfolding s by simp_all
  have all: "\<forall>a \<in> set (fst (ReporterExtractor_get_reporters reporters_example)).
      \<forall>b \<in> set (fst (ReporterExtractor_get_reporters reporters_example)). sublist a b \<longrightarrow> a = b"
    using reporters_contain_no_strict_substring [of reporters_example] by (rule conjunct1)
  have "sublist (lit ''Pedro'') Luis_de_Guindos \<longrightarrow> lit ''Pedro'' = Luis_de_Guindos"
    using bspec [OF bspec [OF all b] a] .
  moreover have "sublist Luis_de_Guindos (lit ''Pedro'') \<longrightarrow> Luis_de_Guindos = lit ''Pedro''"
    using bspec [OF bspec [OF all a] b] .
  ultimately show ?thesis
    using s ne by (simp only: simp_thms) (metis)
qed

lemma role_get_entities:
  "set (ReporterExtractor_get_entities role_result) = {Pedro_Sanchez, lit ''Pedro''}"
proof -
  have "Pedro_Sanchez \<noteq> Luis" "lit ''Pedro'' \<noteq> Luis"
    "Pedro_Sanchez \<noteq> Guindos" "lit ''Pedro'' \<noteq> Guindos"
    by code_simp+
  then show ?thesis
    by (simp add: ReporterExtractor_get_entities_def role_result_def role_packed
        set_difference_def list_of_set_def)
qed

text \<open>
  The claim C3 as stated fails for \<open>get_sources\<close> and \<open>get_entities\<close>: on the
  two-sentence text, \<open>get_sources\<close> returns "Reuters" and "Thomson Reuters", and
  \<open>get_entities\<close> returns "Pedro S\'anchez" and "Pedro".
\<close>

theorem sources_and_entities_keep_substrings:
  "map_sum id get_sources (ReporterExtractor_parse role_provider fresh_extractor role_text)
     = Inr [lit ''Reuters'', lit ''Thomson Reuters'']
   \<and> sublist (lit ''Reuters'') (lit ''Thomson Reuters'')
   \<and> lit ''Reuters'' \<noteq> lit ''Thomson Reuters''
   \<and> map_sum id (set \<circ> ReporterExtractor_get_entities)
       (ReporterExtractor_parse role_provider fresh_extractor role_text)
     = Inr {Pedro_Sanchez, lit ''Pedro''}
   \<and> sublist (lit ''Pedro'') Pedro_Sanchez
   \<and> lit ''Pedro'' \<noteq> Pedro_Sanchez"
proof -
  have "sublist (lit ''Reuters'') (lit ''Thomson Reuters'')"
    "lit ''Reuters'' \<noteq> lit ''Thomson Reuters''"
    "sublist (lit ''Pedro'') Pedro_Sanchez"
    "lit ''Pedro'' \<noteq> Pedro_Sanchez"
    by code_simp+
  then show ?thesis
    by (simp add: parse_role_text role_get_sources role_get_entities)
qed

end
